theory Spec2Isabelle
  imports Main "HOL-Library.Sublist"
begin

section \<open>JavaScript strings\<close>

text \<open>
  The two library operations of \<^verbatim>\<open>String.prototype\<close> that the selector predicate uses.
  \<^verbatim>\<open>s.indexOf(sel)\<close> is the least position at which \<open>sel\<close> starts in \<open>s\<close>, and \<open>-1\<close>
  when there is none; \<^verbatim>\<open>s.charAt(i)\<close> is the one-character string at position \<open>i\<close>, and
  the empty string when \<open>i\<close> is out of range.  Selector strings are taken to be ASCII, so
  that a \<open>char\<close> is one code unit.
\<close>

fun indexOf :: "string \<Rightarrow> string \<Rightarrow> int" where
  "indexOf [] sel = (if sel = [] then 0 else - 1)"
| "indexOf (c # s) sel =
     (if prefix sel (c # s) then 0
      else (let r = indexOf s sel in if r < 0 then - 1 else r + 1))"

definition charAt :: "string \<Rightarrow> int \<Rightarrow> string" where
  "charAt s i = (if 0 \<le> i \<and> i < int (length s) then [s ! nat i] else [])"

section \<open>Errors\<close>

text \<open>
  Every \<^verbatim>\<open>throw\<close> of the source and every failure of the JavaScript runtime that the
  source can run into is a value:
  \<^item> \<open>NodeNotFound\<close>: \<^verbatim>\<open>new Error('Query did not match a VNode')\<close>;
  \<^item> \<open>NotInitialized\<close>: \<^verbatim>\<open>new Error('TestProjector is not initialized')\<close>;
  \<^item> \<open>TypeError\<close>: reading a property of \<^verbatim>\<open>undefined\<close>, or calling \<^verbatim>\<open>undefined\<close>.
\<close>

datatype error = NodeNotFound | NotInitialized | TypeError

section \<open>Synthetic events and the objects they point to\<close>

text \<open>
  A target element is a mutable object, known by its reference; the simulator only ever
  writes its \<^verbatim>\<open>value\<close> property.  The world is the store of these objects (with the next
  free reference, for the object literal \<^verbatim>\<open>{}\<close>) and the application state that the
  handlers and the render function work on.
\<close>

type_synonym ref = nat

record jsObject =
  valueProp :: "string option"

record 'a world =
  heap :: "ref \<Rightarrow> jsObject option"
  nextRef :: ref
  app :: 'a

record event =
  target :: "ref option"
  defaultPrevented :: bool
  propagationStopped :: bool
  which :: "int option"
  pageX :: "int option"
  pageY :: "int option"

text \<open>
  A handler is called with the event object and may change it (the closures
  \<^verbatim>\<open>preventDefault\<close> and \<^verbatim>\<open>stopPropagation\<close> set its flags) and the world; it returns
  both as it leaves them.  Handlers are taken to return normally.
\<close>

type_synonym 'a handler = "event \<Rightarrow> 'a world \<Rightarrow> event \<times> 'a world"

record 'a vnodeProperties =
  onkeydown :: "'a handler option"
  onkeyup :: "'a handler option"
  onmousedown :: "'a handler option"
  onmouseup :: "'a handler option"
  oninput :: "'a handler option"
  onchange :: "'a handler option"
  onfocus :: "'a handler option"
  onblur :: "'a handler option"

section \<open>Virtual nodes\<close>

text \<open>
  An object that the source treats as a \<^verbatim>\<open>VNode\<close>.  Each of the four properties the
  source reads may be \<^verbatim>\<open>undefined\<close> (\<open>None\<close>): \<^verbatim>\<open>h('div')\<close> has no properties,
  \<^verbatim>\<open>h('div', ['hello'])\<close> no array of children, and the parent that
  \<^verbatim>\<open>createTestProjector\<close> puts above the
  root, \<^verbatim>\<open>{children: [getRootVNode()]}\<close>, has no selector either.
\<close>

datatype 'a vnode =
  VNode (vnodeSelector: "string option")
        (properties: "'a vnodeProperties option")
        (children: "'a vnode list option")
        (vtext: "string option")

type_synonym 'a VNodePredicate = "'a vnode \<Rightarrow> error + bool"

datatype 'a selector = Str string | Pred "'a vnode \<Rightarrow> bool"

section \<open>Helper functions of test-projector.ts\<close>

text \<open>
  The body of the predicate that \<^verbatim>\<open>makeSelectorFunction\<close> returns for a string, on the
  selector string of the node.  \<^verbatim>\<open>selector[0]\<close> of the empty string is \<^verbatim>\<open>undefined\<close>,
  which is neither \<^verbatim>\<open>'.'\<close> nor \<^verbatim>\<open>'#'\<close>; \<^verbatim>\<open>!nextChar\<close> holds for the empty string only.
\<close>

definition matchesSelector :: "string \<Rightarrow> string \<Rightarrow> bool" where
  "matchesSelector selector nodeSelector =
     (let index = indexOf nodeSelector selector in
      if (if take 1 selector = ''.'' \<or> take 1 selector = ''#'' then index > 0 else index = 0)
      then (let nextChar = charAt nodeSelector (index + int (length selector)) in
            nextChar = [] \<or> nextChar = ''.'' \<or> nextChar = ''#'')
      else False)"

text \<open>
  \<^verbatim>\<open>makeSelectorFunction\<close>.  On a node without a selector,
  \<^verbatim>\<open>vNode.vnodeSelector.indexOf\<close> is a \<open>TypeError\<close>.  A predicate function is returned as
  it is.  The third branch of the source (neither a string nor a function) is excluded
  by the type of selectors.
\<close>

fun makeSelectorFunction :: "'a selector \<Rightarrow> 'a VNodePredicate" where
  "makeSelectorFunction (Str selector) =
     (\<lambda>vNode. case vnodeSelector vNode of
                 None \<Rightarrow> Inl TypeError
               | Some s \<Rightarrow> Inr (matchesSelector selector s))"
| "makeSelectorFunction (Pred p) = (\<lambda>vNode. Inr (p vNode))"

text \<open>
  \<^verbatim>\<open>filterDescendants\<close>: \<open>visit\<close> is the inner function, \<open>visitEach\<close> its
  \<^verbatim>\<open>children.forEach\<close>, and \<open>results\<close> the array both push to.  An error of the
  predicate leaves the loop.
\<close>

fun visit :: "'a VNodePredicate \<Rightarrow> 'a vnode \<Rightarrow> 'a vnode list \<Rightarrow> error + 'a vnode list"
  and visitEach :: "'a VNodePredicate \<Rightarrow> 'a vnode list \<Rightarrow> 'a vnode list \<Rightarrow> error + 'a vnode list"
where
  "visit predicate (VNode sel props cs txt) results =
     (case cs of None \<Rightarrow> Inr results | Some cs' \<Rightarrow> visitEach predicate cs' results)"
| "visitEach predicate [] results = Inr results"
| "visitEach predicate (child # rest) results =
     (case predicate child of
        Inl e \<Rightarrow> Inl e
      | Inr b \<Rightarrow>
          (case visit predicate child (if b then results @ [child] else results) of
             Inl e \<Rightarrow> Inl e
           | Inr results' \<Rightarrow> visitEach predicate rest results'))"

definition filterDescendants :: "'a vnode \<Rightarrow> 'a VNodePredicate \<Rightarrow> error + 'a vnode list" where
  "filterDescendants root predicate = visit predicate root []"

text \<open>
  \<^verbatim>\<open>collectTextContent\<close>, with \<open>collectEach\<close> its \<^verbatim>\<open>children.forEach\<close>.  The array
  holds what was pushed: the \<^verbatim>\<open>text\<close> of a node with selector \<^verbatim>\<open>''\<close> is pushed
  even when it is \<^verbatim>\<open>undefined\<close>.  A text is truthy when it is a non-empty string.
\<close>

definition truthy :: "string option \<Rightarrow> bool" where
  "truthy t = (t \<noteq> None \<and> t \<noteq> Some [])"

fun collectTextContent :: "'a vnode \<Rightarrow> string option list \<Rightarrow> string option list"
  and collectEach :: "'a vnode list \<Rightarrow> string option list \<Rightarrow> string option list"
where
  "collectTextContent (VNode sel props cs txt) results =
     (if sel = Some [] then results @ [txt]
      else (let results' = (if truthy txt then results @ [txt] else results) in
            case cs of None \<Rightarrow> results' | Some cs' \<Rightarrow> collectEach cs' results'))"
| "collectEach [] results = results"
| "collectEach (child # rest) results = collectEach rest (collectTextContent child results)"

text \<open>\<^verbatim>\<open>Array.prototype.join('')\<close>: an \<^verbatim>\<open>undefined\<close> element counts as the empty string.\<close>

definition join :: "string option list \<Rightarrow> string" where
  "join results = concat (map (\<lambda>t. case t of None \<Rightarrow> [] | Some s \<Rightarrow> s) results)"

text \<open>\<^verbatim>\<open>xs[index]\<close> on an array: \<^verbatim>\<open>undefined\<close> outside of it.\<close>

definition at :: "'b list \<Rightarrow> int \<Rightarrow> 'b option" where
  "at xs index = (if 0 \<le> index \<and> index < int (length xs) then Some (xs ! nat index) else None)"

section \<open>The create methods of test-projector.ts\<close>

text \<open>
  \<^verbatim>\<open>createQuery(getVNode)\<close> returns an object of closures over the accessor
  \<open>getVNode\<close> alone, so a query handle is its accessor, and each method of the object is
  a function of the accessor.  The accessor reads mutable state \<open>'s\<close> (for a test
  projector, the render function and the world), may throw, and may return
  \<^verbatim>\<open>undefined\<close> (\<open>None\<close>).  The getters \<^verbatim>\<open>vnodeSelector\<close>, \<^verbatim>\<open>properties\<close>,
  \<^verbatim>\<open>children\<close> and \<^verbatim>\<open>textContent\<close> are \<open>get_vnodeSelector\<close> and so on.  The target
  node of a handle and \<^verbatim>\<open>simulate\<close>, which calls a module that is not part of these
  sources, are left out.
\<close>

type_synonym ('s, 'a) NodeQuery = "'s \<Rightarrow> error + 'a vnode option"

type_synonym ('s, 'a) NodeListQuery = "'s \<Rightarrow> error + 'a vnode list"

definition createQuery :: "('s \<Rightarrow> error + 'a vnode option) \<Rightarrow> ('s, 'a) NodeQuery" where
  "createQuery getVNode = getVNode"

definition createCollectionQuery :: "('s \<Rightarrow> error + 'a vnode list) \<Rightarrow> ('s, 'a) NodeListQuery" where
  "createCollectionQuery getVNodes = getVNodes"

definition getResult :: "('s, 'a) NodeQuery \<Rightarrow> 's \<Rightarrow> error + 'a vnode" where
  "getResult getVNode s =
     (case getVNode s of
        Inl e \<Rightarrow> Inl e
      | Inr None \<Rightarrow> Inl NodeNotFound
      | Inr (Some result) \<Rightarrow> Inr result)"

definition execute :: "('s, 'a) NodeQuery \<Rightarrow> 's \<Rightarrow> error + 'a vnode" where
  "execute getVNode = getResult getVNode"

definition exists :: "('s, 'a) NodeQuery \<Rightarrow> 's \<Rightarrow> error + bool" where
  "exists getVNode s =
     (case getVNode s of Inl e \<Rightarrow> Inl e | Inr r \<Rightarrow> Inr (r \<noteq> None))"

text \<open>
  \<^verbatim>\<open>filterDescendants(getVNode(), predicate)\<close>, as \<open>query\<close> and \<open>queryAll\<close> call it:
  when the accessor returns \<^verbatim>\<open>undefined\<close>, \<^verbatim>\<open>vnodeTree.children\<close> is a \<open>TypeError\<close>.
\<close>

definition filterDescendantsOf ::
  "('s, 'a) NodeQuery \<Rightarrow> 'a VNodePredicate \<Rightarrow> 's \<Rightarrow> error + 'a vnode list" where
  "filterDescendantsOf getVNode predicate s =
     (case getVNode s of
        Inl e \<Rightarrow> Inl e
      | Inr None \<Rightarrow> Inl TypeError
      | Inr (Some root) \<Rightarrow> filterDescendants root predicate)"

definition query :: "('s, 'a) NodeQuery \<Rightarrow> 'a selector \<Rightarrow> ('s, 'a) NodeQuery" where
  "query getVNode selector =
     (let predicate = makeSelectorFunction selector in
      createQuery (\<lambda>s. case filterDescendantsOf getVNode predicate s of
                          Inl e \<Rightarrow> Inl e
                        | Inr results \<Rightarrow> Inr (at results 0)))"

definition queryAll :: "('s, 'a) NodeQuery \<Rightarrow> 'a selector \<Rightarrow> ('s, 'a) NodeListQuery" where
  "queryAll getVNode selector =
     (let predicate = makeSelectorFunction selector in
      createCollectionQuery (\<lambda>s. filterDescendantsOf getVNode predicate s))"

definition get_textContent :: "('s, 'a) NodeQuery \<Rightarrow> 's \<Rightarrow> error + string" where
  "get_textContent getVNode s =
     (case getResult getVNode s of
        Inl e \<Rightarrow> Inl e
      | Inr result \<Rightarrow> Inr (join (collectTextContent result [])))"

definition get_vnodeSelector :: "('s, 'a) NodeQuery \<Rightarrow> 's \<Rightarrow> error + string option" where
  "get_vnodeSelector getVNode s =
     (case getResult getVNode s of Inl e \<Rightarrow> Inl e | Inr result \<Rightarrow> Inr (vnodeSelector result))"

definition get_properties ::
  "('s, 'a) NodeQuery \<Rightarrow> 's \<Rightarrow> error + 'a vnodeProperties option" where
  "get_properties getVNode s =
     (case getResult getVNode s of Inl e \<Rightarrow> Inl e | Inr result \<Rightarrow> Inr (properties result))"

definition get_children :: "('s, 'a) NodeQuery \<Rightarrow> 's \<Rightarrow> error + 'a vnode list option" where
  "get_children getVNode s =
     (case getResult getVNode s of Inl e \<Rightarrow> Inl e | Inr result \<Rightarrow> Inr (children result))"

text \<open>
  \<^verbatim>\<open>getChild(index)\<close>: the accessor \<^verbatim>\<open>getResult().children[index]\<close>.  Indexing the
  \<^verbatim>\<open>undefined\<close> children of a node is a \<open>TypeError\<close>.
\<close>

definition getChild :: "('s, 'a) NodeQuery \<Rightarrow> int \<Rightarrow> ('s, 'a) NodeQuery" where
  "getChild getVNode index =
     createQuery (\<lambda>s. case getResult getVNode s of
                         Inl e \<Rightarrow> Inl e
                       | Inr result \<Rightarrow>
                           (case children result of
                              None \<Rightarrow> Inl TypeError
                            | Some cs \<Rightarrow> Inr (at cs index)))"

text \<open>The methods of the object that \<^verbatim>\<open>createCollectionQuery(getVNodes)\<close> returns.\<close>

definition NodeListQuery_execute :: "('s, 'a) NodeListQuery \<Rightarrow> 's \<Rightarrow> error + 'a vnode list" where
  "NodeListQuery_execute getVNodes = getVNodes"

definition NodeListQuery_getResult :: "('s, 'a) NodeListQuery \<Rightarrow> int \<Rightarrow> ('s, 'a) NodeQuery" where
  "NodeListQuery_getResult getVNodes index =
     createQuery (\<lambda>s. case getVNodes s of Inl e \<Rightarrow> Inl e | Inr vs \<Rightarrow> Inr (at vs index))"

definition NodeListQuery_length :: "('s, 'a) NodeListQuery \<Rightarrow> 's \<Rightarrow> error + nat" where
  "NodeListQuery_length getVNodes s =
     (case getVNodes s of Inl e \<Rightarrow> Inl e | Inr vs \<Rightarrow> Inr (length vs))"

section \<open>The test projector\<close>

text \<open>
  The one variable that the closures of \<^verbatim>\<open>createTestProjector\<close> share is
  \<^verbatim>\<open>renderMaquetteFunction\<close>, unset when \<open>None\<close>.  A render function produces the tree
  from the world as it is when it is called.  The handles of a projector read the
  projector and the world.
\<close>

record 'a testProjector =
  renderMaquetteFunction :: "('a world \<Rightarrow> 'a vnode) option"

type_synonym 'a projectorState = "'a testProjector \<times> 'a world"

definition createTestProjector :: "('a world \<Rightarrow> 'a vnode) option \<Rightarrow> 'a testProjector" where
  "createTestProjector renderMaquetteFunction' =
     \<lparr>renderMaquetteFunction = renderMaquetteFunction'\<rparr>"

definition getRootVNode :: "'a projectorState \<Rightarrow> error + 'a vnode" where
  "getRootVNode s =
     (case renderMaquetteFunction (fst s) of
        None \<Rightarrow> Inl NotInitialized
      | Some render \<Rightarrow> Inr (render (snd s)))"

definition createQueryStart :: "('a projectorState, 'a) NodeQuery" where
  "createQueryStart =
     createQuery (\<lambda>s. case getRootVNode s of
                         Inl e \<Rightarrow> Inl e
                       | Inr r \<Rightarrow> Inr (Some (VNode None None (Some [r]) None)))"

definition initialize :: "('a world \<Rightarrow> 'a vnode) \<Rightarrow> 'a testProjector \<Rightarrow> 'a testProjector" where
  "initialize initializeRenderMaquetteFunction p =
     p\<lparr>renderMaquetteFunction := Some initializeRenderMaquetteFunction\<rparr>"

definition uninitialize :: "'a testProjector \<Rightarrow> 'a testProjector" where
  "uninitialize p = p\<lparr>renderMaquetteFunction := None\<rparr>"

definition root :: "('a projectorState, 'a) NodeQuery" where
  "root = createQuery (\<lambda>s. case getRootVNode s of Inl e \<Rightarrow> Inl e | Inr r \<Rightarrow> Inr (Some r))"

definition projector_query :: "'a selector \<Rightarrow> ('a projectorState, 'a) NodeQuery" where
  "projector_query = query createQueryStart"

definition projector_queryAll :: "'a selector \<Rightarrow> ('a projectorState, 'a) NodeListQuery" where
  "projector_queryAll = queryAll createQueryStart"

section \<open>The query object on a fixed tree\<close>

text \<open>
  The second source file holds \<^verbatim>\<open>query(vnodeTree)\<close>, the query object on a tree that
  is given once.  Its \<^verbatim>\<open>makeSelectorFunction\<close> is the one above with the two type tests
  in the other order.  \<^verbatim>\<open>findAll\<close> pushes \<^verbatim>\<open>query(vnodeTree)\<close>, the object made from
  the node; the node stands for it here.  \<open>findAllEach\<close> is the \<^verbatim>\<open>children.forEach\<close>.
\<close>

fun findAll :: "'a VNodePredicate \<Rightarrow> 'a vnode \<Rightarrow> 'a vnode list \<Rightarrow> error + 'a vnode list"
  and findAllEach :: "'a VNodePredicate \<Rightarrow> 'a vnode list \<Rightarrow> 'a vnode list \<Rightarrow> error + 'a vnode list"
where
  "findAll selector (VNode sel props cs txt) results =
     (case selector (VNode sel props cs txt) of
        Inl e \<Rightarrow> Inl e
      | Inr b \<Rightarrow>
          (let results' = (if b then results @ [VNode sel props cs txt] else results) in
           case cs of None \<Rightarrow> Inr results' | Some cs' \<Rightarrow> findAllEach selector cs' results'))"
| "findAllEach selector [] results = Inr results"
| "findAllEach selector (child # rest) results =
     (case findAll selector child results of
        Inl e \<Rightarrow> Inl e
      | Inr results' \<Rightarrow> findAllEach selector rest results')"

fun text_query :: "'a vnode \<Rightarrow> string option list \<Rightarrow> string option list"
  and text_queryEach :: "'a vnode list \<Rightarrow> string option list \<Rightarrow> string option list"
where
  "text_query (VNode sel props cs txt) results =
     (if sel = Some [] then results @ [txt]
      else (let results' = (if truthy txt then results @ [txt] else results) in
            case cs of None \<Rightarrow> results' | Some cs' \<Rightarrow> text_queryEach cs' results'))"
| "text_queryEach [] results = results"
| "text_queryEach (child # rest) results = text_queryEach rest (text_query child results)"

definition query_findAll :: "'a vnode \<Rightarrow> string \<Rightarrow> error + 'a vnode list" where
  "query_findAll vnodeTree selector = findAll (makeSelectorFunction (Str selector)) vnodeTree []"

definition query_find :: "'a vnode \<Rightarrow> string \<Rightarrow> error + 'a vnode option" where
  "query_find vnodeTree selector =
     (case findAll (makeSelectorFunction (Str selector)) vnodeTree [] of
        Inl e \<Rightarrow> Inl e
      | Inr results \<Rightarrow> Inr (at results 0))"

definition query_text :: "'a vnode \<Rightarrow> string" where
  "query_text vnodeTree = join (text_query vnodeTree [])"

section \<open>The simulator\<close>

text \<open>
  \<^verbatim>\<open>createEvent\<close> and the two closures of the event it makes, then the events with more
  fields.  A number is an integer here; the simulator only passes numbers on.
\<close>

definition createEvent :: "ref option \<Rightarrow> event" where
  "createEvent target' =
     \<lparr>target = target', defaultPrevented = False, propagationStopped = False,
      which = None, pageX = None, pageY = None\<rparr>"

definition preventDefault :: "event \<Rightarrow> event" where
  "preventDefault result = result\<lparr>defaultPrevented := True\<rparr>"

definition stopPropagation :: "event \<Rightarrow> event" where
  "stopPropagation result = result\<lparr>propagationStopped := True\<rparr>"

definition createKeyEvent :: "int \<Rightarrow> ref option \<Rightarrow> event" where
  "createKeyEvent which' target' = (createEvent target')\<lparr>which := Some which'\<rparr>"

record MouseEventParameters =
  param_pageX :: "int option"
  param_pageY :: "int option"

definition createMouseEvent :: "ref option \<Rightarrow> MouseEventParameters option \<Rightarrow> event" where
  "createMouseEvent target' parameters =
     (let event = createEvent target' in
      case parameters of
        None \<Rightarrow> event
      | Some ps \<Rightarrow> event\<lparr>pageX := param_pageX ps, pageY := param_pageY ps\<rparr>)"

definition createFocusEvent :: "ref option \<Rightarrow> event" where
  "createFocusEvent target' = createEvent target'"

text \<open>
  \<^verbatim>\<open>properties.onxxx(event)\<close>, as the single-action methods do it: a \<open>TypeError\<close> when the
  node has no properties, and when the properties have no such handler.  The method
  returns the event object, which is the one the handler was called with, as the
  handler left it.
\<close>

definition dispatch ::
  "'a vnodeProperties option \<Rightarrow> ('a vnodeProperties \<Rightarrow> 'a handler option) \<Rightarrow> event \<Rightarrow> 'a world
     \<Rightarrow> (error + event) \<times> 'a world" where
  "dispatch properties' on event w =
     (case properties' of
        None \<Rightarrow> (Inl TypeError, w)
      | Some props \<Rightarrow>
          (case on props of
             None \<Rightarrow> (Inl TypeError, w)
           | Some h \<Rightarrow> (let (event', w') = h event w in (Inr event', w'))))"

text \<open>
  The methods of \<^verbatim>\<open>createSimulator(vnode)\<close>; the first argument is
  \<^verbatim>\<open>vnode.properties\<close>, which the simulator reads once.
\<close>

definition keyDown :: "'a vnodeProperties option \<Rightarrow> int \<Rightarrow> ref option \<Rightarrow> 'a world
    \<Rightarrow> (error + event) \<times> 'a world" where
  "keyDown properties' keyCode targetElement =
     dispatch properties' onkeydown (createKeyEvent keyCode targetElement)"

definition keyUp :: "'a vnodeProperties option \<Rightarrow> int \<Rightarrow> ref option \<Rightarrow> 'a world
    \<Rightarrow> (error + event) \<times> 'a world" where
  "keyUp properties' keyCode targetElement =
     dispatch properties' onkeyup (createKeyEvent keyCode targetElement)"

definition mouseDown ::
  "'a vnodeProperties option \<Rightarrow> ref option \<Rightarrow> MouseEventParameters option \<Rightarrow> 'a world
    \<Rightarrow> (error + event) \<times> 'a world" where
  "mouseDown properties' targetElement parameters =
     dispatch properties' onmousedown (createMouseEvent targetElement parameters)"

definition mouseUp ::
  "'a vnodeProperties option \<Rightarrow> ref option \<Rightarrow> MouseEventParameters option \<Rightarrow> 'a world
    \<Rightarrow> (error + event) \<times> 'a world" where
  "mouseUp properties' targetElement parameters =
     dispatch properties' onmouseup (createMouseEvent targetElement parameters)"

definition input :: "'a vnodeProperties option \<Rightarrow> ref option \<Rightarrow> 'a world
    \<Rightarrow> (error + event) \<times> 'a world" where
  "input properties' targetElement = dispatch properties' oninput (createEvent targetElement)"

definition change :: "'a vnodeProperties option \<Rightarrow> ref option \<Rightarrow> 'a world
    \<Rightarrow> (error + event) \<times> 'a world" where
  "change properties' targetElement = dispatch properties' onchange (createEvent targetElement)"

definition focus :: "'a vnodeProperties option \<Rightarrow> ref option \<Rightarrow> 'a world
    \<Rightarrow> (error + event) \<times> 'a world" where
  "focus properties' targetElement = dispatch properties' onfocus (createFocusEvent targetElement)"

definition blur :: "'a vnodeProperties option \<Rightarrow> ref option \<Rightarrow> 'a world
    \<Rightarrow> (error + event) \<times> 'a world" where
  "blur properties' targetElement = dispatch properties' onblur (createFocusEvent targetElement)"

text \<open>
  \<^verbatim>\<open>keyPress\<close>.  \<open>newObject\<close> is the object literal of \<^verbatim>\<open>targetElement || {}\<close>,
  \<open>setValue\<close> the assignment to \<^verbatim>\<open>targetElement.value\<close>, and \<open>fire\<close> one guarded
  call \<^verbatim>\<open>if (properties.onxxx) { properties.onxxx(event) }\<close>, whose event is dropped.
  The guard reads a property of \<^verbatim>\<open>properties\<close>: on a node without properties the
  first guard is a \<open>TypeError\<close>, after the first assignment.
\<close>

definition newObject :: "'a world \<Rightarrow> ref \<times> 'a world" where
  "newObject w =
     (nextRef w,
      w\<lparr>heap := (heap w)(nextRef w \<mapsto> \<lparr>valueProp = None\<rparr>), nextRef := Suc (nextRef w)\<rparr>)"

definition setValue :: "ref \<Rightarrow> string \<Rightarrow> 'a world \<Rightarrow> 'a world" where
  "setValue r v w = w\<lparr>heap := (heap w)(r \<mapsto> \<lparr>valueProp = Some v\<rparr>)\<rparr>"

definition fire :: "'a handler option \<Rightarrow> event \<Rightarrow> 'a world \<Rightarrow> 'a world" where
  "fire on event w = (case on of None \<Rightarrow> w | Some h \<Rightarrow> snd (h event w))"

definition keyPress ::
  "'a vnodeProperties option \<Rightarrow> int \<Rightarrow> string \<Rightarrow> string \<Rightarrow> ref option \<Rightarrow> 'a world
    \<Rightarrow> (error + unit) \<times> 'a world" where
  "keyPress properties' keyCode valueBefore valueAfter targetElement w =
     (let (t, w0) = (case targetElement of None \<Rightarrow> newObject w | Some r \<Rightarrow> (r, w));
          w1 = setValue t valueBefore w0
      in case properties' of
           None \<Rightarrow> (Inl TypeError, w1)
         | Some props \<Rightarrow>
             (let w2 = fire (onkeydown props) (createKeyEvent keyCode (Some t)) w1;
                  w3 = setValue t valueAfter w2;
                  w4 = fire (onkeyup props) (createKeyEvent keyCode (Some t)) w3;
                  w5 = fire (oninput props) (createEvent (Some t)) w4
              in (Inr (), w5)))"

section \<open>Document order\<close>

text \<open>
  The nodes of a tree in pre-order: a node before its children, the children from left
  to right.  The descendants of a node are the nodes below it, in the same order.
\<close>

fun preorder :: "'a vnode \<Rightarrow> 'a vnode list"
  and preorderEach :: "'a vnode list \<Rightarrow> 'a vnode list"
where
  "preorder (VNode sel props cs txt) =
     VNode sel props cs txt # (case cs of None \<Rightarrow> [] | Some cs' \<Rightarrow> preorderEach cs')"
| "preorderEach [] = []"
| "preorderEach (child # rest) = preorder child @ preorderEach rest"

definition descendants :: "'a vnode \<Rightarrow> 'a vnode list" where
  "descendants v = (case children v of None \<Rightarrow> [] | Some cs \<Rightarrow> preorderEach cs)"

text \<open>
  A tree as the rendering library types it: every node has a selector string.  On such a
  tree the predicate of a string selector is \<open>nodeMatches\<close>.
\<close>

definition hasSelectors :: "'a vnode \<Rightarrow> bool" where
  "hasSelectors T = (\<forall>n \<in> set (preorder T). vnodeSelector n \<noteq> None)"

definition nodeMatches :: "string \<Rightarrow> 'a vnode \<Rightarrow> bool" where
  "nodeMatches S n = (case vnodeSelector n of None \<Rightarrow> False | Some s \<Rightarrow> matchesSelector S s)"

section \<open>Examples\<close>

text \<open>The tree of the test \<^verbatim>\<open>can query nodes in the tree of descendants\<close>, and a world.\<close>

definition exampleTree :: "unit vnode" where
  "exampleTree =
     VNode (Some ''div'') None
       (Some [VNode (Some ''div.here'') None None None,
              VNode (Some ''div'') None
                (Some [VNode (Some ''div.here.too'') None None None,
                       VNode (Some ''div.and.here.too'') None None None]) None]) None"

definition emptyWorld :: "unit world" where
  "emptyWorld = \<lparr>heap = Map.empty, nextRef = 0, app = ()\<rparr>"

text \<open>A second tree, and the paragraph \<^verbatim>\<open>h('p', ['Hello, ', h('b', ['world'])])\<close>.\<close>

definition otherTree :: "unit vnode" where
  "otherTree =
     VNode (Some ''ul'') None
       (Some [VNode (Some ''li.here'') None None (Some ''one'')]) None"

definition helloParagraph :: "unit vnode" where
  "helloParagraph =
     VNode (Some ''p'') None
       (Some [VNode (Some []) None None (Some ''Hello, ''),
              VNode (Some ''b'') None None (Some ''world'')]) None"

text \<open>
  A handler that records its name, the event it was called with and the \<^verbatim>\<open>value\<close> that
  the target of the event has at the time of the call; and a handler that counts its
  calls and calls \<^verbatim>\<open>preventDefault\<close>.
\<close>

definition logHandler :: "string \<Rightarrow> (string \<times> event \<times> string option) list handler" where
  "logHandler name event w =
     (event,
      w\<lparr>app := app w @ [(name, event,
          (case target event of
             None \<Rightarrow> None
           | Some t \<Rightarrow> (case heap w t of None \<Rightarrow> None | Some ob \<Rightarrow> valueProp ob)))]\<rparr>)"

definition preventingHandler :: "nat handler" where
  "preventingHandler event w = (preventDefault event, w\<lparr>app := Suc (app w)\<rparr>)"

definition noHandlers :: "'a vnodeProperties" where
  "noHandlers =
     \<lparr>onkeydown = None, onkeyup = None, onmousedown = None, onmouseup = None,
      oninput = None, onchange = None, onfocus = None, onblur = None\<rparr>"

section \<open>Notions the claims are stated with\<close>

text \<open>
  A fragment boundary in a selector string: the end of the string, or the start of the
  next class or id fragment.  A selector is a class or id fragment when it starts with
  \<^verbatim>\<open>.\<close> or \<^verbatim>\<open>#\<close>.
\<close>

definition boundaryAt :: "string \<Rightarrow> nat \<Rightarrow> bool" where
  "boundaryAt s i = (i \<ge> length s \<or> s ! i = CHR ''.'' \<or> s ! i = CHR ''#'')"

definition isClassOrId :: "string \<Rightarrow> bool" where
  "isClassOrId sel = (take 1 sel = ''.'' \<or> take 1 sel = ''#'')"

text \<open>
  The handles rooted at a test projector: its \<open>root\<close>, what its \<open>query\<close> and
  \<open>queryAll\<close> return, and what the methods of such handles return in turn.
\<close>

inductive rootedQuery :: "('a projectorState, 'a) NodeQuery \<Rightarrow> bool"
  and rootedList :: "('a projectorState, 'a) NodeListQuery \<Rightarrow> bool"
where
  rooted_root: "rootedQuery root"
| rooted_projector_query: "rootedQuery (projector_query selector)"
| rooted_projector_queryAll: "rootedList (projector_queryAll selector)"
| rooted_query: "rootedQuery getVNode \<Longrightarrow> rootedQuery (query getVNode selector)"
| rooted_queryAll: "rootedQuery getVNode \<Longrightarrow> rootedList (queryAll getVNode selector)"
| rooted_getChild: "rootedQuery getVNode \<Longrightarrow> rootedQuery (getChild getVNode index)"
| rooted_getResult:
    "rootedList getVNodes \<Longrightarrow> rootedQuery (NodeListQuery_getResult getVNodes index)"

text \<open>
  The nodes that the text walk visits, in the order of the visit: it does not go below a
  node with selector \<^verbatim>\<open>''\<close>.  \<open>pushed\<close> is what the walk pushes at a node, \<open>nodeText\<close>
  what that adds to the joined string, \<open>childList\<close> the children of a node, none when
  it has no array of children.
\<close>

fun textNodes :: "'a vnode \<Rightarrow> 'a vnode list"
  and textNodesEach :: "'a vnode list \<Rightarrow> 'a vnode list"
where
  "textNodes (VNode sel props cs txt) =
     VNode sel props cs txt #
       (if sel = Some [] then [] else (case cs of None \<Rightarrow> [] | Some cs' \<Rightarrow> textNodesEach cs'))"
| "textNodesEach [] = []"
| "textNodesEach (child # rest) = textNodes child @ textNodesEach rest"

definition pushed :: "'a vnode \<Rightarrow> string option list" where
  "pushed n = (if vnodeSelector n = Some [] \<or> truthy (vtext n) then [vtext n] else [])"

definition nodeText :: "'a vnode \<Rightarrow> string" where
  "nodeText n = (case vtext n of None \<Rightarrow> [] | Some t \<Rightarrow> t)"

definition childList :: "'a vnode \<Rightarrow> 'a vnode list" where
  "childList v = (case children v of None \<Rightarrow> [] | Some cs \<Rightarrow> cs)"

text \<open>
  The text collection as the specification words it, to compare the walk with: the own
  text of a node with selector \<^verbatim>\<open>''\<close>, and for any other node the texts of its
  children, one after the other.
\<close>

fun claimedTextContent :: "'a vnode \<Rightarrow> string"
  and claimedTextEach :: "'a vnode list \<Rightarrow> string"
where
  "claimedTextContent (VNode sel props cs txt) =
     (if sel = Some [] then (case txt of None \<Rightarrow> [] | Some t \<Rightarrow> t)
      else (case cs of None \<Rightarrow> [] | Some cs' \<Rightarrow> claimedTextEach cs'))"
| "claimedTextEach [] = []"
| "claimedTextEach (child # rest) = claimedTextContent child @ claimedTextEach rest"

section \<open>The tree walks\<close>

lemma preorder_descendants: "preorder v = v # descendants v"
  by (cases v) (simp add: descendants_def)

text \<open>
  When the predicate returns on every descendant, \<open>visit\<close> appends the descendants that
  satisfy it, in document order; and it returns only then.
\<close>

lemma visit_ok:
  "(\<forall>n \<in> set (descendants v). \<exists>b. p n = Inr b) \<Longrightarrow>
     visit p v rs = Inr (rs @ filter (\<lambda>n. p n = Inr True) (descendants v))"
  and visitEach_ok: "(\<forall>n \<in> set (preorderEach cs). \<exists>b. p n = Inr b) \<Longrightarrow>
     visitEach p cs rs = Inr (rs @ filter (\<lambda>n. p n = Inr True) (preorderEach cs))"
proof (induction p v rs and p cs rs rule: visit_visitEach.induct)
  case (1 predicate sel props cs tx results)
  then show ?case by (cases cs) (simp_all add: descendants_def)
next
  case (2 predicate results)
  then show ?case by simp
next
  case (3 predicate child rest results)
  from "3.prems" obtain b where b: "predicate child = Inr b"
    by (auto simp: preorder_descendants)
  from "3.prems" have d: "\<forall>n \<in> set (descendants child). \<exists>b. predicate n = Inr b"
    and r: "\<forall>n \<in> set (preorderEach rest). \<exists>b. predicate n = Inr b"
    by (auto simp: preorder_descendants)
  show ?case
    using "3.IH"(1)[OF b d] "3.IH"(2)[OF b _ r] b
    by (cases b) (simp_all add: preorder_descendants)
qed

lemma visit_Inr:
  "visit p v rs = Inr xs \<Longrightarrow> (\<forall>n \<in> set (descendants v). \<exists>b. p n = Inr b)"
  and visitEach_Inr:
    "visitEach p cs rs = Inr xs \<Longrightarrow> (\<forall>n \<in> set (preorderEach cs). \<exists>b. p n = Inr b)"
proof (induction p v rs and p cs rs arbitrary: xs and xs rule: visit_visitEach.induct)
  case (1 predicate sel props cs tx results)
  then show ?case by (cases cs) (simp_all add: descendants_def)
next
  case (2 predicate results)
  then show ?case by simp
next
  case (3 predicate child rest results)
  then show ?case
    by (auto simp: preorder_descendants split: sum.splits)
qed

lemma findAll_ok:
  "(\<forall>n \<in> set (preorder v). \<exists>b. p n = Inr b) \<Longrightarrow>
     findAll p v rs = Inr (rs @ filter (\<lambda>n. p n = Inr True) (preorder v))"
  and findAllEach_ok: "(\<forall>n \<in> set (preorderEach cs). \<exists>b. p n = Inr b) \<Longrightarrow>
     findAllEach p cs rs = Inr (rs @ filter (\<lambda>n. p n = Inr True) (preorderEach cs))"
proof (induction p v rs and p cs rs rule: findAll_findAllEach.induct)
  case (1 selector sel props cs tx results)
  let ?v = "VNode sel props cs tx"
  from "1.prems" obtain b where b: "selector ?v = Inr b"
    by auto
  show ?case
  proof (cases cs)
    case None
    with b show ?thesis by (cases b) simp_all
  next
    case (Some cs')
    with "1.prems" have "\<forall>n \<in> set (preorderEach cs'). \<exists>b. selector n = Inr b"
      by simp
    from "1.IH"[OF b refl Some this] b Some show ?thesis
      by (cases b) simp_all
  qed
next
  case (2 selector results)
  then show ?case by simp
next
  case (3 selector child rest results)
  from "3.prems" have c: "\<forall>n \<in> set (preorder child). \<exists>b. selector n = Inr b"
    and r: "\<forall>n \<in> set (preorderEach rest). \<exists>b. selector n = Inr b"
    by auto
  show ?case
    using "3.IH"(1)[OF c] "3.IH"(2)[OF _ r]
    by simp
qed

text \<open>A node is smaller than every node it is below, so it is not its own descendant.\<close>

lemma size_preorder:
  "n \<in> set (preorder v) \<Longrightarrow> size n \<le> size v"
  and size_preorderEach: "n \<in> set (preorderEach cs) \<Longrightarrow> size n < Suc (size_list size cs)"
  by (induction v and cs rule: preorder_preorderEach.induct) (auto split: option.splits)

lemma not_own_descendant: "v \<notin> set (descendants v)"
  by (cases v) (auto simp: descendants_def split: option.splits dest: size_preorderEach)

lemma filterDescendants_Str:
  assumes "\<forall>n \<in> set (descendants T). vnodeSelector n \<noteq> None"
  shows "filterDescendants T (makeSelectorFunction (Str S)) =
    Inr (filter (nodeMatches S) (descendants T))"
proof -
  have "\<forall>n \<in> set (descendants T). \<exists>b. makeSelectorFunction (Str S) n = Inr b"
    using assms by auto
  then have "filterDescendants T (makeSelectorFunction (Str S)) =
      Inr (filter (\<lambda>n. makeSelectorFunction (Str S) n = Inr True) (descendants T))"
    by (simp add: filterDescendants_def visit_ok)
  moreover have "filter (\<lambda>n. makeSelectorFunction (Str S) n = Inr True) (descendants T) =
      filter (nodeMatches S) (descendants T)"
    using assms by (intro filter_cong refl) (auto simp: nodeMatches_def)
  ultimately show ?thesis by simp
qed

lemma findAll_Str:
  assumes "hasSelectors T"
  shows "query_findAll T S = Inr (filter (nodeMatches S) (preorder T))"
proof -
  have "\<forall>n \<in> set (preorder T). \<exists>b. makeSelectorFunction (Str S) n = Inr b"
    using assms by (auto simp: hasSelectors_def)
  then have "query_findAll T S =
      Inr (filter (\<lambda>n. makeSelectorFunction (Str S) n = Inr True) (preorder T))"
    by (simp add: query_findAll_def findAll_ok)
  moreover have "filter (\<lambda>n. makeSelectorFunction (Str S) n = Inr True) (preorder T) =
      filter (nodeMatches S) (preorder T)"
    using assms by (intro filter_cong refl) (auto simp: nodeMatches_def hasSelectors_def)
  ultimately show ?thesis by simp
qed

lemma exampleTree_hasSelectors: "hasSelectors exampleTree"
  by (simp add: exampleTree_def hasSelectors_def)

lemma exampleTree_here:
  "filter (nodeMatches ''.here'') (preorder exampleTree) =
     [VNode (Some ''div.here'') None None None,
      VNode (Some ''div.here.too'') None None None,
      VNode (Some ''div.and.here.too'') None None None]"
  by (simp add: exampleTree_def nodeMatches_def matchesSelector_def charAt_def)

lemma exampleTree_descendants_here:
  "filter (nodeMatches ''.here'') (descendants exampleTree) =
     [VNode (Some ''div.here'') None None None,
      VNode (Some ''div.here.too'') None None None,
      VNode (Some ''div.and.here.too'') None None None]"
  by (simp add: exampleTree_def descendants_def nodeMatches_def matchesSelector_def charAt_def)

section \<open>Strings\<close>

text \<open>\<open>indexOf\<close> is the first occurrence, or \<open>-1\<close> when there is none.\<close>

lemma indexOf_prefix:
  "0 \<le> indexOf s sel \<Longrightarrow> prefix sel (drop (nat (indexOf s sel)) s)"
proof (induction s)
  case Nil
  then show ?case by (simp split: if_splits)
next
  case (Cons c s)
  show ?case
  proof (cases "prefix sel (c # s)")
    case True
    then show ?thesis by simp
  next
    case False
    with Cons.prems have r: "0 \<le> indexOf s sel"
      by (simp add: Let_def split: if_splits)
    with False have "indexOf (c # s) sel = indexOf s sel + 1"
      by (simp add: Let_def)
    moreover have "nat (indexOf s sel + 1) = Suc (nat (indexOf s sel))"
      using r by simp
    ultimately show ?thesis using Cons.IH[OF r] by simp
  qed
qed

lemma indexOf_least:
  "0 \<le> indexOf s sel \<Longrightarrow> j < nat (indexOf s sel) \<Longrightarrow> \<not> prefix sel (drop j s)"
proof (induction s arbitrary: j)
  case Nil
  then show ?case by (simp split: if_splits)
next
  case (Cons c s)
  show ?case
  proof (cases "prefix sel (c # s)")
    case True
    with Cons.prems show ?thesis by simp
  next
    case False
    with Cons.prems have r: "0 \<le> indexOf s sel"
      by (simp add: Let_def split: if_splits)
    with False have e: "indexOf (c # s) sel = indexOf s sel + 1"
      by (simp add: Let_def)
    show ?thesis
    proof (cases j)
      case 0
      with False show ?thesis by simp
    next
      case (Suc k)
      with Cons.prems(2) e r have "k < nat (indexOf s sel)" by simp
      from Cons.IH[OF r this] Suc show ?thesis by simp
    qed
  qed
qed

lemma indexOf_none: "indexOf s sel < 0 \<Longrightarrow> \<not> prefix sel (drop j s)"
proof (induction s arbitrary: j)
  case Nil
  then show ?case by (simp split: if_splits)
next
  case (Cons c s)
  then show ?case
    by (cases j) (auto simp: Let_def split: if_splits)
qed

text \<open>
  The predicate of a string selector looks at the first occurrence only: it holds when
  that occurrence is at a position of the right kind and ends at a fragment boundary.
\<close>

lemma matchesSelector_iff:
  "matchesSelector sel s \<longleftrightarrow>
     (let i = indexOf s sel in
      (if isClassOrId sel then 0 < i else i = 0) \<and> boundaryAt s (nat i + length sel))"
  by (auto simp: matchesSelector_def Let_def charAt_def boundaryAt_def isClassOrId_def
      nat_add_distrib)

lemma matchesSelector_exact:
  assumes "matchesSelector sel s"
  shows "\<exists>i. prefix sel (drop i s) \<and> (if isClassOrId sel then 0 < i else i = 0)
             \<and> boundaryAt s (i + length sel)"
proof -
  let ?i = "indexOf s sel"
  from assms have k: "if isClassOrId sel then 0 < ?i else ?i = 0"
    and b: "boundaryAt s (nat ?i + length sel)"
    by (simp_all add: matchesSelector_iff Let_def)
  from k have "0 \<le> ?i" by (simp split: if_splits)
  from indexOf_prefix[OF this] k b show ?thesis
    by (intro exI[of _ "nat ?i"]) (simp split: if_splits)
qed

lemma matchesSelector_examples:
  "\<not> matchesSelector ''.foo'' ''.foobar'' \<and> \<not> matchesSelector ''.foo'' ''barfoo''
   \<and> \<not> matchesSelector ''div'' ''divider'' \<and> matchesSelector ''.here'' ''div.and.here.too''"
  by (simp add: matchesSelector_def charAt_def)

section \<open>Handles\<close>

lemmas handle_defs = createQuery_def createCollectionQuery_def query_def queryAll_def
  getChild_def NodeListQuery_getResult_def filterDescendantsOf_def getResult_def
  projector_query_def projector_queryAll_def createQueryStart_def root_def

lemmas read_defs = exists_def execute_def getResult_def get_textContent_def
  get_vnodeSelector_def get_properties_def get_children_def

text \<open>
  Every handle rooted at a projector resolves the root first: without a render function
  its accessor throws, and otherwise what it returns depends on the state only through
  the tree that the render function returns.
\<close>

lemma rooted_uninitialized:
  "rootedQuery g \<Longrightarrow> renderMaquetteFunction p = None \<Longrightarrow> g (p, w) = Inl NotInitialized"
  and rootedList_uninitialized:
  "rootedList l \<Longrightarrow> renderMaquetteFunction p = None \<Longrightarrow> l (p, w) = Inl NotInitialized"
  by (induction rule: rootedQuery_rootedList.inducts)
     (simp_all add: handle_defs getRootVNode_def)

lemma rooted_current_tree:
  "rootedQuery g \<Longrightarrow> getRootVNode s = getRootVNode s' \<Longrightarrow> g s = g s'"
  and rootedList_current_tree:
  "rootedList l \<Longrightarrow> getRootVNode s = getRootVNode s' \<Longrightarrow> l s = l s'"
  by (induction rule: rootedQuery_rootedList.inducts)
     (simp_all add: handle_defs)

lemma filterDescendants_not_self:
  assumes "filterDescendants v p = Inr xs"
  shows "v \<notin> set xs"
proof -
  from assms have ok: "\<forall>n \<in> set (descendants v). \<exists>b. p n = Inr b"
    by (auto simp: filterDescendants_def dest: visit_Inr)
  from visit_ok[OF ok, of "[]"] assms have "xs = filter (\<lambda>n. p n = Inr True) (descendants v)"
    by (simp add: filterDescendants_def)
  then show ?thesis using not_own_descendant[of v] by auto
qed

text \<open>
  Past the end of an array of nodes there is \<^verbatim>\<open>undefined\<close>: the handle exists not, and
  \<open>execute\<close> throws.  For \<open>getChild\<close> this needs the node to have an array of children.
\<close>

lemma getResult_past_end:
  "getVNodes s = Inr vs \<Longrightarrow> int (length vs) \<le> index \<Longrightarrow>
     exists (NodeListQuery_getResult getVNodes index) s = Inr False
   \<and> execute (NodeListQuery_getResult getVNodes index) s = Inl NodeNotFound"
  by (simp add: exists_def execute_def handle_defs at_def)

lemma getChild_past_end:
  "getVNode s = Inr (Some v) \<Longrightarrow> children v = Some cs \<Longrightarrow> int (length cs) \<le> index \<Longrightarrow>
     exists (getChild getVNode index) s = Inr False
   \<and> execute (getChild getVNode index) s = Inl NodeNotFound"
  by (simp add: exists_def execute_def handle_defs at_def)

section \<open>The text walk\<close>

lemma join_append: "join (xs @ ys) = join xs @ join ys"
  by (simp add: join_def)

lemma join_pushed: "join (pushed n) = nodeText n"
  by (cases "vtext n") (auto simp: join_def pushed_def nodeText_def truthy_def)

lemma join_concat_pushed: "join (concat (map pushed ns)) = concat (map nodeText ns)"
  by (induction ns) (simp_all add: join_append join_pushed, simp add: join_def)

lemma collectTextContent_pushed:
  "collectTextContent (v::'a vnode) rs = rs @ concat (map pushed (textNodes v))"
  and collectEach_pushed:
  "collectEach (cs::'a vnode list) rs = rs @ concat (map pushed (textNodesEach cs))"
  by (induction v rs and cs rs rule: collectTextContent_collectEach.induct)
     (auto simp: pushed_def Let_def split: option.splits)

lemma text_query_pushed:
  "text_query (v::'a vnode) rs = rs @ concat (map pushed (textNodes v))"
  and text_queryEach_pushed:
  "text_queryEach (cs::'a vnode list) rs = rs @ concat (map pushed (textNodesEach cs))"
  by (induction v rs and cs rs rule: text_query_text_queryEach.induct)
     (auto simp: pushed_def Let_def split: option.splits)

lemma textNodes_subseq:
  "subseq (textNodes (v::'a vnode)) (preorder v)"
  and textNodesEach_subseq: "subseq (textNodesEach (cs::'a vnode list)) (preorderEach cs)"
  by (induction v and cs rule: textNodes_textNodesEach.induct)
     (auto split: option.splits intro: list_emb_append_mono)

lemma query_text_nodes: "query_text u = concat (map nodeText (textNodes u))"
  by (simp add: query_text_def text_query_pushed join_concat_pushed)

lemma query_text_each:
  "concat (map query_text cs) = concat (map nodeText (textNodesEach cs))"
  by (induction cs) (simp_all add: query_text_nodes)

lemma queryAll_projector_Str:
  assumes "hasSelectors T" and "renderMaquetteFunction p = Some render" and "render w = T"
  shows "NodeListQuery_execute (projector_queryAll (Str S)) (p, w) =
      Inr (filter (nodeMatches S) (preorder T))"
proof -
  let ?parent = "VNode None None (Some [T]) None"
  have "\<forall>n \<in> set (descendants ?parent). vnodeSelector n \<noteq> None"
    using assms(1) by (simp add: hasSelectors_def descendants_def)
  from filterDescendants_Str[OF this, of S] assms(2,3) show ?thesis
    by (simp add: NodeListQuery_execute_def handle_defs getRootVNode_def descendants_def)
qed

lemma textNodesEach_concat: "textNodesEach cs = concat (map textNodes cs)"
  by (induction cs) simp_all

section \<open>Probing a handle\<close>

text \<open>
  In a state in which the accessor of a query handle returns, a node or \<^verbatim>\<open>undefined\<close>,
  \<open>exists\<close> returns and tells which of the two it was, and \<open>execute\<close> and each of
  the reads throw \<open>NodeNotFound\<close> exactly when \<open>exists\<close> is false.  The accessor of
  \<open>query(S)\<close> on a handle that resolves to a tree with selectors returns whatever the
  number of matches.
\<close>

lemma exists_when_accessor_returns:
  "(getVNode s = Inr r \<longrightarrow>
      exists getVNode s = Inr (r \<noteq> None)
    \<and> (execute getVNode s = Inl NodeNotFound \<longleftrightarrow> exists getVNode s = Inr False)
    \<and> (get_textContent getVNode s = Inl NodeNotFound \<longleftrightarrow> exists getVNode s = Inr False)
    \<and> (get_vnodeSelector getVNode s = Inl NodeNotFound \<longleftrightarrow> exists getVNode s = Inr False)
    \<and> (get_properties getVNode s = Inl NodeNotFound \<longleftrightarrow> exists getVNode s = Inr False)
    \<and> (get_children getVNode s = Inl NodeNotFound \<longleftrightarrow> exists getVNode s = Inr False))
   \<and> (exists getVNode s = Inr True \<longrightarrow>
        (\<exists>v. execute getVNode s = Inr v
           \<and> get_textContent getVNode s = Inr (join (collectTextContent v []))
           \<and> get_vnodeSelector getVNode s = Inr (vnodeSelector v)
           \<and> get_properties getVNode s = Inr (properties v)
           \<and> get_children getVNode s = Inr (children v)))
   \<and> (parent s = Inr (Some T) \<and> (\<forall>n \<in> set (descendants T). vnodeSelector n \<noteq> None) \<longrightarrow>
        query parent (Str S) s = Inr (at (filter (nodeMatches S) (descendants T)) 0)
      \<and> exists (query parent (Str S)) s = Inr (filter (nodeMatches S) (descendants T) \<noteq> []))"
proof -
  have a: "getVNode s = Inr r \<longrightarrow>
      exists getVNode s = Inr (r \<noteq> None)
    \<and> (execute getVNode s = Inl NodeNotFound \<longleftrightarrow> exists getVNode s = Inr False)
    \<and> (get_textContent getVNode s = Inl NodeNotFound \<longleftrightarrow> exists getVNode s = Inr False)
    \<and> (get_vnodeSelector getVNode s = Inl NodeNotFound \<longleftrightarrow> exists getVNode s = Inr False)
    \<and> (get_properties getVNode s = Inl NodeNotFound \<longleftrightarrow> exists getVNode s = Inr False)
    \<and> (get_children getVNode s = Inl NodeNotFound \<longleftrightarrow> exists getVNode s = Inr False)"
    by (auto simp: read_defs split: option.splits)
  have b: "exists getVNode s = Inr True \<longrightarrow>
        (\<exists>v. execute getVNode s = Inr v
           \<and> get_textContent getVNode s = Inr (join (collectTextContent v []))
           \<and> get_vnodeSelector getVNode s = Inr (vnodeSelector v)
           \<and> get_properties getVNode s = Inr (properties v)
           \<and> get_children getVNode s = Inr (children v))"
    by (auto simp: read_defs split: option.splits sum.splits)
  have c: "parent s = Inr (Some T) \<and> (\<forall>n \<in> set (descendants T). vnodeSelector n \<noteq> None) \<longrightarrow>
        query parent (Str S) s = Inr (at (filter (nodeMatches S) (descendants T)) 0)
      \<and> exists (query parent (Str S)) s = Inr (filter (nodeMatches S) (descendants T) \<noteq> [])"
  proof
    assume h: "parent s = Inr (Some T) \<and> (\<forall>n \<in> set (descendants T). vnodeSelector n \<noteq> None)"
    then have "\<forall>n \<in> set (descendants T). vnodeSelector n \<noteq> None"
      by blast
    from filterDescendants_Str[OF this, of S] h show "query parent (Str S) s = Inr (at (filter (nodeMatches S) (descendants T)) 0)
      \<and> exists (query parent (Str S)) s = Inr (filter (nodeMatches S) (descendants T) \<noteq> [])"
      by (cases "filter (nodeMatches S) (descendants T)")
         (simp_all add: exists_def handle_defs at_def)
  qed
  from a b c show ?thesis by blast
qed

lemma exists_when_accessor_returns_example:
  "query (\<lambda>s. Inr (Some exampleTree)) (Str ''.here'') () =
     Inr (Some (VNode (Some ''div.here'') None None None))
   \<and> exists (query (\<lambda>s. Inr (Some exampleTree)) (Str ''.here'')) () = Inr True
   \<and> execute (query (\<lambda>s. Inr (Some exampleTree)) (Str ''.here'')) () =
       Inr (VNode (Some ''div.here'') None None None)
   \<and> query (\<lambda>s. Inr (Some exampleTree)) (Str ''.there'') () = Inr None
   \<and> exists (query (\<lambda>s. Inr (Some exampleTree)) (Str ''.there'')) () = Inr False
   \<and> execute (query (\<lambda>s. Inr (Some exampleTree)) (Str ''.there'')) () = Inl NodeNotFound
   \<and> get_textContent (query (\<lambda>s. Inr (Some exampleTree)) (Str ''.there'')) () = Inl NodeNotFound"
proof -
  let ?parent = "\<lambda>s::unit. (Inr (Some exampleTree) :: error + unit vnode option)"
  have t: "\<forall>n \<in> set (descendants exampleTree). vnodeSelector n \<noteq> None"
    by (simp add: exampleTree_def descendants_def)
  have there: "filter (nodeMatches ''.there'') (descendants exampleTree) = []"
    by (simp add: exampleTree_def descendants_def nodeMatches_def matchesSelector_def charAt_def)
  have q1: "query ?parent (Str ''.here'') () = Inr (Some (VNode (Some ''div.here'') None None None))"
    using exists_when_accessor_returns[of "query ?parent (Str ''.here'')" "()" None ?parent exampleTree "''.here''"]
      t exampleTree_descendants_here
    by (simp add: at_def)
  have q2: "query ?parent (Str ''.there'') () = Inr None"
    using exists_when_accessor_returns[of "query ?parent (Str ''.there'')" "()" None ?parent exampleTree "''.there''"]
      t there
    by (simp add: at_def)
  show ?thesis
    using q1 q2
      exists_when_accessor_returns[of "query ?parent (Str ''.here'')" "()"
        "Some (VNode (Some ''div.here'') None None None)" ?parent exampleTree "''.here''"]
      exists_when_accessor_returns[of "query ?parent (Str ''.there'')" "()" None ?parent exampleTree "''.there''"]
    by (simp add: execute_def getResult_def)
qed

section \<open>The key press\<close>

text \<open>
  On a node that has properties, \<open>keyPress(keyCode, valueBefore, valueAfter, target)\<close>
  does this and nothing else, in this order: it sets the \<^verbatim>\<open>value\<close> of the target to
  \<open>valueBefore\<close>; when \<open>onkeydown\<close> is present it calls it with a key event for
  \<open>keyCode\<close> on the target; it sets the \<^verbatim>\<open>value\<close> to \<open>valueAfter\<close>; when \<open>onkeyup\<close> is
  present it calls it with such a key event; when \<open>oninput\<close> is present it calls it with
  a plain event on the target; and it returns without an error, whichever handlers are
  absent.  Without a target it does the same on a new object.
\<close>

lemma keyPress_sequence:
  assumes "properties' = Some props"
  shows "(\<exists>w1 w2 w3 w4 w5.
      w1 = setValue t valueBefore w
    \<and> heap w1 t = Some \<lparr>valueProp = Some valueBefore\<rparr>
    \<and> w2 = (case onkeydown props of
              None \<Rightarrow> w1
            | Some h \<Rightarrow> snd (h \<lparr>target = Some t, defaultPrevented = False,
                                 propagationStopped = False, which = Some keyCode,
                                 pageX = None, pageY = None\<rparr> w1))
    \<and> w3 = setValue t valueAfter w2
    \<and> heap w3 t = Some \<lparr>valueProp = Some valueAfter\<rparr>
    \<and> w4 = (case onkeyup props of
              None \<Rightarrow> w3
            | Some h \<Rightarrow> snd (h \<lparr>target = Some t, defaultPrevented = False,
                                 propagationStopped = False, which = Some keyCode,
                                 pageX = None, pageY = None\<rparr> w3))
    \<and> w5 = (case oninput props of
              None \<Rightarrow> w4
            | Some h \<Rightarrow> snd (h \<lparr>target = Some t, defaultPrevented = False,
                                 propagationStopped = False, which = None,
                                 pageX = None, pageY = None\<rparr> w4))
    \<and> keyPress properties' keyCode valueBefore valueAfter (Some t) w = (Inr (), w5))
   \<and> keyPress properties' keyCode valueBefore valueAfter None w =
       keyPress properties' keyCode valueBefore valueAfter (Some (fst (newObject w)))
         (snd (newObject w))"
  using assms
  by (simp add: keyPress_def fire_def setValue_def createKeyEvent_def createEvent_def Let_def
      split: option.splits prod.splits)

text \<open>
  With the three handlers wired, \<open>keyPress(13, '', 'a', target)\<close> calls keydown, keyup
  and input in this order, and they see the values \<^verbatim>\<open>''\<close>, \<^verbatim>\<open>'a'\<close> and \<^verbatim>\<open>'a'\<close> on the
  target; without \<open>oninput\<close> the first two are still called.
\<close>

lemma keyPress_sequence_example:
  "(\<exists>w'. keyPress
       (Some (noHandlers\<lparr>onkeydown := Some (logHandler ''keydown''),
                        onkeyup := Some (logHandler ''keyup''),
                        oninput := Some (logHandler ''input'')\<rparr>))
       13 '''' ''a'' (Some 0) \<lparr>heap = Map.empty, nextRef = 1, app = []\<rparr> = (Inr (), w')
     \<and> map (\<lambda>(name, event, v). (name, which event, v)) (app w') =
         [(''keydown'', Some 13, Some ''''),
          (''keyup'', Some 13, Some ''a''),
          (''input'', None, Some ''a'')])
   \<and> (\<exists>w'. keyPress
       (Some (noHandlers\<lparr>onkeydown := Some (logHandler ''keydown''),
                        onkeyup := Some (logHandler ''keyup'')\<rparr>))
       13 '''' ''a'' (Some 0) \<lparr>heap = Map.empty, nextRef = 1, app = []\<rparr> = (Inr (), w')
     \<and> map (\<lambda>(name, event, v). (name, which event, v)) (app w') =
         [(''keydown'', Some 13, Some ''''),
          (''keyup'', Some 13, Some ''a'')])"
  using
    keyPress_sequence[of
      "Some (noHandlers\<lparr>onkeydown := Some (logHandler ''keydown''),
                       onkeyup := Some (logHandler ''keyup''),
                       oninput := Some (logHandler ''input'')\<rparr>)"
      "noHandlers\<lparr>onkeydown := Some (logHandler ''keydown''),
                  onkeyup := Some (logHandler ''keyup''),
                  oninput := Some (logHandler ''input'')\<rparr>"
      0 "''''" "\<lparr>heap = Map.empty, nextRef = 1, app = []\<rparr>" 13 "''a''"]
    keyPress_sequence[of
      "Some (noHandlers\<lparr>onkeydown := Some (logHandler ''keydown''),
                       onkeyup := Some (logHandler ''keyup'')\<rparr>)"
      "noHandlers\<lparr>onkeydown := Some (logHandler ''keydown''),
                  onkeyup := Some (logHandler ''keyup'')\<rparr>"
      0 "''''" "\<lparr>heap = Map.empty, nextRef = 1, app = []\<rparr>" 13 "''a''"]
  by (simp add: noHandlers_def logHandler_def setValue_def)

section \<open>Claims\<close>

text \<open>
  C1.  On a tree whose nodes all have a selector, and for every string selector \<open>S\<close>:
  \<open>queryAll(S)\<close> on a handle that resolves to the tree returns the descendants that
  match, in pre-order document order; a second resolution, in any state in which the
  handle resolves to the same tree, returns the same sequence; \<open>queryAll(S)\<close> of the
  projector that renders the tree, and the raw \<open>findAll\<close> scan, return the matching
  nodes of the whole tree, in pre-order document order.
\<close>

theorem queryAll_document_order:
  assumes "hasSelectors T"
    and "getVNode s = Inr (Some T)" and "getVNode s' = Inr (Some T)"
    and "renderMaquetteFunction p = Some render" and "render w = T"
  shows "NodeListQuery_execute (queryAll getVNode (Str S)) s =
           Inr (filter (nodeMatches S) (descendants T))
       \<and> NodeListQuery_execute (queryAll getVNode (Str S)) s' =
           NodeListQuery_execute (queryAll getVNode (Str S)) s
       \<and> NodeListQuery_execute (projector_queryAll (Str S)) (p, w) =
           Inr (filter (nodeMatches S) (preorder T))
       \<and> query_findAll T S = Inr (filter (nodeMatches S) (preorder T))"
proof -
  have d: "\<forall>n \<in> set (descendants T). vnodeSelector n \<noteq> None"
    using assms(1) by (simp add: hasSelectors_def preorder_descendants)
  have q: "\<And>t. getVNode t = Inr (Some T) \<Longrightarrow>
      NodeListQuery_execute (queryAll getVNode (Str S)) t =
        Inr (filter (nodeMatches S) (descendants T))"
    using filterDescendants_Str[OF d, of S]
    by (simp add: NodeListQuery_execute_def queryAll_def createCollectionQuery_def
        filterDescendantsOf_def)
  let ?parent = "VNode None None (Some [T]) None"
  have "\<forall>n \<in> set (descendants ?parent). vnodeSelector n \<noteq> None"
    using assms(1) by (simp add: hasSelectors_def descendants_def)
  from filterDescendants_Str[OF this, of S]
  have "NodeListQuery_execute (projector_queryAll (Str S)) (p, w) =
      Inr (filter (nodeMatches S) (preorder T))"
    using assms(4,5)
    by (simp add: NodeListQuery_execute_def projector_queryAll_def queryAll_def
        createCollectionQuery_def filterDescendantsOf_def createQueryStart_def createQuery_def
        getRootVNode_def descendants_def)
  with q[OF assms(2)] q[OF assms(3)] findAll_Str[OF assms(1), of S] show ?thesis
    by simp
qed

theorem queryAll_document_order_witness:
  "hasSelectors exampleTree
   \<and> NodeListQuery_execute (queryAll (\<lambda>s. Inr (Some exampleTree)) (Str ''.here'')) () =
       Inr [VNode (Some ''div.here'') None None None,
            VNode (Some ''div.here.too'') None None None,
            VNode (Some ''div.and.here.too'') None None None]
   \<and> NodeListQuery_execute (projector_queryAll (Str ''.here''))
         (createTestProjector (Some (\<lambda>w. exampleTree)), emptyWorld) =
       Inr [VNode (Some ''div.here'') None None None,
            VNode (Some ''div.here.too'') None None None,
            VNode (Some ''div.and.here.too'') None None None]
   \<and> query_findAll exampleTree ''.here'' =
       Inr [VNode (Some ''div.here'') None None None,
            VNode (Some ''div.here.too'') None None None,
            VNode (Some ''div.and.here.too'') None None None]"
  using queryAll_document_order[of exampleTree "\<lambda>s. Inr (Some exampleTree)" "()" "()"
      "createTestProjector (Some (\<lambda>w. exampleTree))" "\<lambda>w. exampleTree" emptyWorld "''.here''"]
    exampleTree_hasSelectors exampleTree_here exampleTree_descendants_here
  by (simp add: createTestProjector_def)

text \<open>
  C2.  The predicate of a string selector accepts on the first occurrence of the
  fragment only.  In the selector \<^verbatim>\<open>div.foobar.foo\<close> the fragment \<^verbatim>\<open>.foo\<close> occurs at index
  10, where it ends the string, but the search for \<^verbatim>\<open>.foo\<close> fails, because the first
  occurrence, at index 3, is followed by \<^verbatim>\<open>b\<close>.
\<close>

theorem matchesSelector_first_occurrence_only:
  "makeSelectorFunction (Str ''.foo'') (VNode (Some ''div.foobar.foo'') None None None) = Inr False
   \<and> indexOf ''div.foobar.foo'' ''.foo'' = 3
   \<and> prefix ''.foo'' (drop 10 ''div.foobar.foo'')
   \<and> boundaryAt ''div.foobar.foo'' (10 + length ''.foo'')"
  by (simp add: matchesSelector_def charAt_def boundaryAt_def)

text \<open>
  C3.  \<open>exists\<close> of a query handle throws when the handle it was made from matches no
  node.  On a projector that renders the example tree, \<open>query('.there')\<close> matches
  nothing and its \<open>exists\<close> is false; \<open>query('.there').query('.here')\<close> hands the
  \<^verbatim>\<open>undefined\<close> of the first accessor to \<open>filterDescendants\<close>, which reads its
  children: \<open>exists\<close> throws a \<open>TypeError\<close>, and \<open>execute\<close> throws it too, instead
  of \<open>NodeNotFound\<close>.
\<close>

theorem exists_throws_on_unmatched_parent:
  "projector_query (Str ''.there'')
       (createTestProjector (Some (\<lambda>w. exampleTree)), emptyWorld) = Inr None
   \<and> exists (projector_query (Str ''.there''))
       (createTestProjector (Some (\<lambda>w. exampleTree)), emptyWorld) = Inr False
   \<and> exists (query (projector_query (Str ''.there'')) (Str ''.here''))
       (createTestProjector (Some (\<lambda>w. exampleTree)), emptyWorld) = Inl TypeError
   \<and> execute (query (projector_query (Str ''.there'')) (Str ''.here''))
       (createTestProjector (Some (\<lambda>w. exampleTree)), emptyWorld) = Inl TypeError"
  by (simp add: exists_def execute_def handle_defs getRootVNode_def createTestProjector_def
      at_def filterDescendants_def exampleTree_def matchesSelector_def charAt_def)

text \<open>
  C4.  On a node without properties, such as \<^verbatim>\<open>h('div')\<close>, \<open>keyPress(13, '', 'a', target)\<close>
  sets the \<^verbatim>\<open>value\<close> of the target to \<^verbatim>\<open>''\<close> and then throws a \<open>TypeError\<close>: the first
  guard reads \<^verbatim>\<open>properties.onkeydown\<close> of \<^verbatim>\<open>undefined\<close>.  On a node whose properties
  hold no handler it calls nothing, sets the \<^verbatim>\<open>value\<close> to \<^verbatim>\<open>''\<close> and then to \<^verbatim>\<open>'a'\<close>, and
  returns.
\<close>

theorem keyPress_without_properties:
  "keyPress None 13 '''' ''a'' (Some 0) emptyWorld = (Inl TypeError, setValue 0 '''' emptyWorld)
   \<and> keyPress (Some noHandlers) 13 '''' ''a'' (Some 0) emptyWorld =
       (Inr (), setValue 0 ''a'' (setValue 0 '''' emptyWorld))"
  by (simp add: keyPress_def Let_def noHandlers_def fire_def)

text \<open>
  C5.  After \<open>uninitialize\<close>, the resolution of every handle rooted at the projector
  throws \<open>NotInitialized\<close>: \<open>execute\<close>, \<open>exists\<close> and the derived reads of a query
  handle, \<open>execute\<close> and \<open>length\<close> of a collection handle.  A resolution returns a
  value, and \<open>uninitialize\<close> changes nothing but the render function of the projector:
  what was returned before stays as it is, and with the render function put back the
  handle resolves as before.
\<close>

theorem uninitialize_invalidates:
  assumes "rootedQuery g" and "rootedList l" and "renderMaquetteFunction p = Some render"
  shows "execute g (uninitialize p, w) = Inl NotInitialized
       \<and> exists g (uninitialize p, w) = Inl NotInitialized
       \<and> get_textContent g (uninitialize p, w) = Inl NotInitialized
       \<and> get_vnodeSelector g (uninitialize p, w) = Inl NotInitialized
       \<and> get_properties g (uninitialize p, w) = Inl NotInitialized
       \<and> get_children g (uninitialize p, w) = Inl NotInitialized
       \<and> NodeListQuery_execute l (uninitialize p, w) = Inl NotInitialized
       \<and> NodeListQuery_length l (uninitialize p, w) = Inl NotInitialized
       \<and> execute g (createTestProjector None, w) = Inl NotInitialized
       \<and> execute g (initialize render (uninitialize p), w) = execute g (p, w)"
proof -
  have u: "renderMaquetteFunction (uninitialize p) = None"
    by (simp add: uninitialize_def)
  have n: "renderMaquetteFunction (createTestProjector None) = None"
    by (simp add: createTestProjector_def)
  have "getRootVNode (initialize render (uninitialize p), w) = getRootVNode (p, w)"
    using assms(3) by (simp add: getRootVNode_def initialize_def uninitialize_def)
  from rooted_current_tree[OF assms(1) this]
  have "execute g (initialize render (uninitialize p), w) = execute g (p, w)"
    by (simp add: execute_def getResult_def)
  with rooted_uninitialized[OF assms(1) u, of w] rooted_uninitialized[OF assms(1) n, of w]
    rootedList_uninitialized[OF assms(2) u, of w]
  show ?thesis
    by (simp add: read_defs NodeListQuery_execute_def NodeListQuery_length_def)
qed

theorem uninitialize_invalidates_witness:
  "rootedQuery (query (projector_query (Str ''div'') :: (unit projectorState, unit) NodeQuery)
       (Str ''.here''))
   \<and> rootedList (projector_queryAll (Str ''.here'') :: (unit projectorState, unit) NodeListQuery)
   \<and> execute (query (projector_query (Str ''div'')) (Str ''.here''))
        (createTestProjector (Some (\<lambda>w. exampleTree)), emptyWorld) =
       Inr (VNode (Some ''div.here'') None None None)
   \<and> execute (query (projector_query (Str ''div'')) (Str ''.here''))
        (uninitialize (createTestProjector (Some (\<lambda>w. exampleTree))), emptyWorld) =
       Inl NotInitialized
   \<and> NodeListQuery_length (projector_queryAll (Str ''.here''))
        (uninitialize (createTestProjector (Some (\<lambda>w. exampleTree))), emptyWorld) =
       Inl NotInitialized"
proof -
  have g: "rootedQuery (query (projector_query (Str ''div'') :: (unit projectorState, unit) NodeQuery)
      (Str ''.here''))"
    by (intro rooted_query rooted_projector_query)
  have l: "rootedList (projector_queryAll (Str ''.here'') :: (unit projectorState, unit) NodeListQuery)"
    by (rule rooted_projector_queryAll)
  have e: "execute (query (projector_query (Str ''div'')) (Str ''.here''))
        (createTestProjector (Some (\<lambda>w. exampleTree)), emptyWorld) =
       Inr (VNode (Some ''div.here'') None None None)"
    by (simp add: execute_def handle_defs getRootVNode_def createTestProjector_def at_def
        filterDescendants_def exampleTree_def matchesSelector_def charAt_def)
  from uninitialize_invalidates[OF g l, of "createTestProjector (Some (\<lambda>w. exampleTree))"
      "\<lambda>w. exampleTree" emptyWorld] g l e
  show ?thesis
    by (simp add: createTestProjector_def)
qed

text \<open>
  C6.  A handle rooted at the projector resolves against the tree that the render
  function returns at the time of the resolution, and against nothing else: two states
  in which the projector renders the same tree give the same resolution.  After the
  render function was rebound with \<open>initialize\<close>, the same handle resolves as on a
  projector that never rendered another tree; \<open>queryAll(S)\<close> of the projector returns
  the matching nodes of the new tree, and \<open>root\<close> the new tree.
\<close>

theorem resolution_follows_current_tree:
  assumes "rootedQuery g" and "rootedList l" and "newRender w = T" and "hasSelectors T"
  shows "(\<forall>s s'. getRootVNode s = getRootVNode s' \<longrightarrow> g s = g s' \<and> l s = l s')
       \<and> g (initialize newRender (initialize oldRender p), w) = g (createTestProjector (Some (\<lambda>_. T)), w')
       \<and> l (initialize newRender (initialize oldRender p), w) = l (createTestProjector (Some (\<lambda>_. T)), w')
       \<and> NodeListQuery_execute (projector_queryAll (Str S)) (initialize newRender (initialize oldRender p), w) =
           Inr (filter (nodeMatches S) (preorder T))
       \<and> execute root (initialize newRender (initialize oldRender p), w) = Inr T"
proof -
  have a: "\<forall>s s'. getRootVNode s = getRootVNode s' \<longrightarrow> g s = g s' \<and> l s = l s'"
    using rooted_current_tree[OF assms(1)] rootedList_current_tree[OF assms(2)] by blast
  have r: "getRootVNode (initialize newRender (initialize oldRender p), w) =
      getRootVNode (createTestProjector (Some (\<lambda>_. T)), w')"
    using assms(3) by (simp add: getRootVNode_def initialize_def createTestProjector_def)
  have i: "renderMaquetteFunction (initialize newRender (initialize oldRender p)) = Some newRender"
    by (simp add: initialize_def)
  have q: "NodeListQuery_execute (projector_queryAll (Str S)) (initialize newRender (initialize oldRender p), w) =
      Inr (filter (nodeMatches S) (preorder T))"
    using queryAll_projector_Str[OF assms(4) i assms(3)] .
  have e: "execute root (initialize newRender (initialize oldRender p), w) = Inr T"
    using assms(3) by (simp add: execute_def getResult_def root_def createQuery_def
        getRootVNode_def initialize_def)
  from a r q e show ?thesis by blast
qed

theorem resolution_follows_current_tree_witness:
  "rootedQuery (projector_query (Str ''.here'') :: (unit projectorState, unit) NodeQuery)
   \<and> rootedList (projector_queryAll (Str ''.here'') :: (unit projectorState, unit) NodeListQuery)
   \<and> hasSelectors otherTree
   \<and> execute (projector_query (Str ''.here''))
        (initialize (\<lambda>w. exampleTree) (createTestProjector None), emptyWorld) =
       Inr (VNode (Some ''div.here'') None None None)
   \<and> execute (projector_query (Str ''.here''))
        (initialize (\<lambda>w. otherTree) (initialize (\<lambda>w. exampleTree) (createTestProjector None)),
         emptyWorld) =
       Inr (VNode (Some ''li.here'') None None (Some ''one''))
   \<and> NodeListQuery_execute (projector_queryAll (Str ''.here''))
        (initialize (\<lambda>w. otherTree) (initialize (\<lambda>w. exampleTree) (createTestProjector None)),
         emptyWorld) =
       Inr [VNode (Some ''li.here'') None None (Some ''one'')]"
proof -
  have g: "rootedQuery (projector_query (Str ''.here'') :: (unit projectorState, unit) NodeQuery)"
    by (rule rooted_projector_query)
  have l: "rootedList (projector_queryAll (Str ''.here'') :: (unit projectorState, unit) NodeListQuery)"
    by (rule rooted_projector_queryAll)
  have h: "hasSelectors otherTree"
    by (simp add: otherTree_def hasSelectors_def)
  have m: "filter (nodeMatches ''.here'') (preorder otherTree) =
      [VNode (Some ''li.here'') None None (Some ''one'')]"
    by (simp add: otherTree_def nodeMatches_def matchesSelector_def charAt_def)
  have e1: "execute (projector_query (Str ''.here''))
        (initialize (\<lambda>w. exampleTree) (createTestProjector None), emptyWorld) =
       Inr (VNode (Some ''div.here'') None None None)"
    by (simp add: execute_def handle_defs getRootVNode_def createTestProjector_def at_def
        initialize_def filterDescendants_def exampleTree_def matchesSelector_def charAt_def)
  have e2: "execute (projector_query (Str ''.here''))
        (createTestProjector (Some (\<lambda>_. otherTree)), emptyWorld) =
       Inr (VNode (Some ''li.here'') None None (Some ''one''))"
    by (simp add: execute_def handle_defs getRootVNode_def createTestProjector_def at_def
        filterDescendants_def otherTree_def matchesSelector_def charAt_def)
  have t: "(\<lambda>w. otherTree) emptyWorld = otherTree"
    by simp
  let ?s = "(initialize (\<lambda>w. otherTree) (initialize (\<lambda>w. exampleTree) (createTestProjector None)),
      emptyWorld)"
  note r = resolution_follows_current_tree[OF g l t h, where oldRender = "\<lambda>w. exampleTree"
      and p = "createTestProjector None" and w = emptyWorld and w' = emptyWorld
      and S = "''.here''"]
  from r have "projector_query (Str ''.here'') ?s =
      projector_query (Str ''.here'') (createTestProjector (Some (\<lambda>_. otherTree)), emptyWorld)"
    by blast
  then have "execute (projector_query (Str ''.here'')) ?s =
      execute (projector_query (Str ''.here''))
        (createTestProjector (Some (\<lambda>_. otherTree)), emptyWorld)"
    by (simp add: execute_def getResult_def)
  with e2 have e3: "execute (projector_query (Str ''.here'')) ?s =
      Inr (VNode (Some ''li.here'') None None (Some ''one''))"
    by simp
  from r m have "NodeListQuery_execute (projector_queryAll (Str ''.here'')) ?s =
      Inr [VNode (Some ''li.here'') None None (Some ''one'')]"
    by simp
  with g l h e1 e3 show ?thesis
    by blast
qed

text \<open>
  C7.  On a node with an \<open>onmousedown\<close> handler, \<open>mouseDown(target, {pageX: x, pageY: y})\<close>
  makes an event with \<open>pageX = x\<close>, \<open>pageY = y\<close> and the given target, calls the
  handler once, with this event, and returns the event object as the handler leaves it.
  Without the parameters the event has neither \<open>pageX\<close> nor \<open>pageY\<close>.
\<close>

theorem mouseDown_event:
  assumes "properties' = Some props" and "onmousedown props = Some h"
  shows "(\<exists>event. event = createMouseEvent t (Some \<lparr>param_pageX = Some x, param_pageY = Some y\<rparr>)
           \<and> pageX event = Some x \<and> pageY event = Some y \<and> target event = t
           \<and> mouseDown properties' t (Some \<lparr>param_pageX = Some x, param_pageY = Some y\<rparr>) w =
               (Inr (fst (h event w)), snd (h event w)))
       \<and> (\<exists>event. event = createMouseEvent t None
           \<and> pageX event = None \<and> pageY event = None \<and> target event = t
           \<and> mouseDown properties' t None w = (Inr (fst (h event w)), snd (h event w)))"
  using assms
  by (simp add: mouseDown_def dispatch_def createMouseEvent_def createEvent_def Let_def
      split: prod.splits)

theorem mouseDown_event_witness:
  "mouseDown (Some (noHandlers\<lparr>onmousedown := Some preventingHandler\<rparr>)) (Some 7)
       (Some \<lparr>param_pageX = Some 10, param_pageY = Some 20\<rparr>)
       \<lparr>heap = Map.empty, nextRef = 8, app = 0\<rparr> =
     (Inr \<lparr>target = Some 7, defaultPrevented = True, propagationStopped = False,
           which = None, pageX = Some 10, pageY = Some 20\<rparr>,
      \<lparr>heap = Map.empty, nextRef = 8, app = 1\<rparr>)
   \<and> mouseDown (Some (noHandlers\<lparr>onmousedown := Some preventingHandler\<rparr>)) (Some 7) None
       \<lparr>heap = Map.empty, nextRef = 8, app = 0\<rparr> =
     (Inr \<lparr>target = Some 7, defaultPrevented = True, propagationStopped = False,
           which = None, pageX = None, pageY = None\<rparr>,
      \<lparr>heap = Map.empty, nextRef = 8, app = 1\<rparr>)"
  using mouseDown_event[of "Some (noHandlers\<lparr>onmousedown := Some preventingHandler\<rparr>)"
      "noHandlers\<lparr>onmousedown := Some preventingHandler\<rparr>" preventingHandler
      "Some 7" 10 20 "\<lparr>heap = Map.empty, nextRef = 8, app = 0\<rparr>"]
  by (simp add: noHandlers_def preventingHandler_def preventDefault_def createMouseEvent_def
      createEvent_def)

text \<open>
  C8.  The text of a tree is the concatenation of the texts of the nodes that the walk
  visits, in pre-order document order.  At a node with selector \<^verbatim>\<open>''\<close> the walk emits
  the text of the node and does not descend.  At any other node it emits the text of the
  node first, when the node has one, and then descends into the children, from left to
  right.  This holds for \<open>textContent\<close> of a handle and for \<open>text()\<close> of the query
  object alike.
\<close>

theorem textContent_preorder:
  "query_text v = concat (map nodeText (textNodes v))
   \<and> join (collectTextContent v []) = query_text v
   \<and> subseq (textNodes v) (preorder v)
   \<and> (vnodeSelector v = Some [] \<longrightarrow> textNodes v = [v] \<and> query_text v = nodeText v)
   \<and> (vnodeSelector v \<noteq> Some [] \<longrightarrow>
        textNodes v = v # concat (map textNodes (childList v))
      \<and> query_text v = nodeText v @ concat (map query_text (childList v)))"
proof -
  have c: "join (collectTextContent v []) = query_text v"
    by (simp add: query_text_nodes collectTextContent_pushed join_concat_pushed)
  have e: "vnodeSelector v = Some [] \<longrightarrow> textNodes v = [v] \<and> query_text v = nodeText v"
    unfolding query_text_nodes by (cases v) simp
  have n: "vnodeSelector v \<noteq> Some [] \<longrightarrow>
        textNodes v = v # concat (map textNodes (childList v))
      \<and> query_text v = nodeText v @ concat (map query_text (childList v))"
    unfolding query_text_each unfolding query_text_nodes
    by (cases v) (auto simp: childList_def textNodesEach_concat split: option.splits)
  from query_text_nodes[of v] c e n textNodes_subseq[of v] show ?thesis by blast
qed

theorem textContent_preorder_witness:
  "vnodeSelector helloParagraph \<noteq> Some []
   \<and> query_text helloParagraph = ''Hello, world''
   \<and> join (collectTextContent helloParagraph []) = ''Hello, world''
   \<and> query_text (VNode (Some []) None None (Some ''Hello, '') :: unit vnode) = ''Hello, ''"
  using textContent_preorder[of helloParagraph]
    textContent_preorder[of "VNode (Some []) None None (Some ''Hello, '') :: unit vnode"]
    textContent_preorder[of "VNode (Some ''b'') None None (Some ''world'') :: unit vnode"]
  by (simp add: helloParagraph_def childList_def nodeText_def)

text \<open>
  The claim as it was stated, with the children alone at a node whose selector is not
  \<^verbatim>\<open>''\<close>, fails on \<^verbatim>\<open>h('div', ['hello'])\<close>, which holds its text itself.
\<close>

theorem textContent_own_text_counterexample:
  "query_text (VNode (Some ''div'') None None (Some ''hello'')) = ''hello''
   \<and> claimedTextContent (VNode (Some ''div'') None None (Some ''hello'')) = []"
  by (simp add: query_text_def join_def truthy_def)

text \<open>
  C9.  On a handle that resolves to a node without an array of children, such as
  \<^verbatim>\<open>h('div', ['hello'])\<close>, \<open>getChild(0)\<close> returns a handle whose \<open>exists\<close> throws a
  \<open>TypeError\<close>, and whose \<open>execute\<close> throws it too, instead of \<open>NodeNotFound\<close>.
\<close>

theorem getChild_without_children:
  "exists (getChild (\<lambda>s. Inr (Some (VNode (Some ''div'') None None None))) 0) () = Inl TypeError
   \<and> execute (getChild (\<lambda>s. Inr (Some (VNode (Some ''div'') None None None))) 0) () =
       Inl TypeError
   \<and> exists (getChild (\<lambda>s. Inr (Some (VNode (Some ''div'') None None (Some ''hello'')))) 0) () =
       Inl TypeError
   \<and> execute (getChild (\<lambda>s. Inr (Some (VNode (Some ''div'') None None (Some ''hello'')))) 0) () =
       Inl TypeError"
  by (simp add: exists_def execute_def handle_defs)

text \<open>
  C10.  When the projector renders a tree whose root satisfies the selector (and the
  predicate returns on every node of the tree), \<open>queryAll(selector)\<close> of the projector
  returns the root first, and \<open>query(selector)\<close> the root.  On a handle that resolves
  to a node, what \<open>queryAll\<close> returns does not hold the node, and what \<open>query\<close>
  returns is not the node; so for the \<open>root\<close> handle of the projector.
\<close>

theorem projector_query_includes_root:
  assumes "\<forall>n \<in> set (preorder T). \<exists>b. makeSelectorFunction selector n = Inr b"
    and "makeSelectorFunction selector T = Inr True"
    and "renderMaquetteFunction p = Some render" and "render w = T"
    and "getVNode s = Inr (Some v)"
  shows "NodeListQuery_execute (projector_queryAll selector) (p, w) =
           Inr (T # filter (\<lambda>n. makeSelectorFunction selector n = Inr True) (descendants T))
       \<and> execute (projector_query selector) (p, w) = Inr T
       \<and> NodeListQuery_execute (queryAll root selector) (p, w) =
           Inr (filter (\<lambda>n. makeSelectorFunction selector n = Inr True) (descendants T))
       \<and> T \<notin> set (filter (\<lambda>n. makeSelectorFunction selector n = Inr True) (descendants T))
       \<and> (\<forall>xs. NodeListQuery_execute (queryAll getVNode selector') s = Inr xs \<longrightarrow> v \<notin> set xs)
       \<and> (\<forall>x. execute (query getVNode selector') s = Inr x \<longrightarrow> x \<noteq> v)"
proof -
  let ?parent = "VNode None None (Some [T]) None"
  let ?p = "makeSelectorFunction selector"
  have "\<forall>n \<in> set (descendants ?parent). \<exists>b. ?p n = Inr b"
    using assms(1) by (simp add: descendants_def)
  from visit_ok[OF this, of "[]"]
  have f: "filterDescendants ?parent ?p = Inr (T # filter (\<lambda>n. ?p n = Inr True) (descendants T))"
    using assms(2) by (simp add: filterDescendants_def descendants_def preorder_descendants)
  have a: "NodeListQuery_execute (projector_queryAll selector) (p, w) =
      Inr (T # filter (\<lambda>n. ?p n = Inr True) (descendants T))"
    using f assms(3,4) by (simp add: NodeListQuery_execute_def handle_defs getRootVNode_def)
  have b: "execute (projector_query selector) (p, w) = Inr T"
    using f assms(3,4) by (simp add: execute_def handle_defs getRootVNode_def at_def)
  have "\<forall>n \<in> set (descendants T). \<exists>b. ?p n = Inr b"
    using assms(1) by (simp add: preorder_descendants)
  from visit_ok[OF this, of "[]"]
  have c: "NodeListQuery_execute (queryAll root selector) (p, w) =
      Inr (filter (\<lambda>n. ?p n = Inr True) (descendants T))"
    using assms(3,4)
    by (simp add: NodeListQuery_execute_def handle_defs getRootVNode_def filterDescendants_def)
  have d: "T \<notin> set (filter (\<lambda>n. ?p n = Inr True) (descendants T))"
    using not_own_descendant[of T] by simp
  have e: "\<forall>xs. NodeListQuery_execute (queryAll getVNode selector') s = Inr xs \<longrightarrow> v \<notin> set xs"
    using assms(5) filterDescendants_not_self[of v "makeSelectorFunction selector'"]
    by (simp add: NodeListQuery_execute_def handle_defs)
  have g: "\<forall>x. execute (query getVNode selector') s = Inr x \<longrightarrow> x \<noteq> v"
  proof (intro allI impI)
    fix x
    assume "execute (query getVNode selector') s = Inr x"
    then obtain ys where ys: "filterDescendants v (makeSelectorFunction selector') = Inr ys"
      and "at ys 0 = Some x"
      using assms(5) by (auto simp: execute_def handle_defs split: sum.splits option.splits)
    then have "x \<in> set ys" by (cases ys) (auto simp: at_def)
    with filterDescendants_not_self[OF ys] show "x \<noteq> v" by auto
  qed
  from a b c d e g show ?thesis by blast
qed

theorem projector_query_includes_root_witness:
  "makeSelectorFunction (Str ''ul'') otherTree = Inr True
   \<and> NodeListQuery_execute (projector_queryAll (Str ''ul''))
        (createTestProjector (Some (\<lambda>w. otherTree)), emptyWorld) = Inr [otherTree]
   \<and> execute (projector_query (Str ''ul''))
        (createTestProjector (Some (\<lambda>w. otherTree)), emptyWorld) = Inr otherTree
   \<and> NodeListQuery_execute (queryAll root (Str ''ul''))
        (createTestProjector (Some (\<lambda>w. otherTree)), emptyWorld) = Inr []"
proof -
  have ok: "\<forall>n \<in> set (preorder otherTree). \<exists>b. makeSelectorFunction (Str ''ul'') n = Inr b"
    by (simp add: otherTree_def)
  have m: "makeSelectorFunction (Str ''ul'') otherTree = Inr True"
    by (simp add: otherTree_def matchesSelector_def charAt_def)
  have r: "renderMaquetteFunction (createTestProjector (Some (\<lambda>w::unit world. otherTree))) =
      Some (\<lambda>w. otherTree)"
    by (simp add: createTestProjector_def)
  have t: "(\<lambda>w::unit world. otherTree) emptyWorld = otherTree"
    by simp
  have s: "root (createTestProjector (Some (\<lambda>w. otherTree)), emptyWorld) =
      Inr (Some otherTree)"
    by (simp add: root_def createQuery_def getRootVNode_def createTestProjector_def)
  have d: "filter (\<lambda>n. makeSelectorFunction (Str ''ul'') n = Inr True) (descendants otherTree) = []"
    by (simp add: otherTree_def descendants_def matchesSelector_def charAt_def)
  note i = projector_query_includes_root[where T = otherTree and selector = "Str ''ul''"
      and p = "createTestProjector (Some (\<lambda>w. otherTree))" and render = "\<lambda>w. otherTree"
      and w = emptyWorld and getVNode = root
      and s = "(createTestProjector (Some (\<lambda>w. otherTree)), emptyWorld)" and v = otherTree
      and selector' = "Str ''ul''", OF ok m r t s]
  from i have "NodeListQuery_execute (projector_queryAll (Str ''ul''))
        (createTestProjector (Some (\<lambda>w. otherTree)), emptyWorld) =
      Inr (otherTree #
        filter (\<lambda>n. makeSelectorFunction (Str ''ul'') n = Inr True) (descendants otherTree))"
    by blast
  moreover from i have "execute (projector_query (Str ''ul''))
        (createTestProjector (Some (\<lambda>w. otherTree)), emptyWorld) = Inr otherTree"
    by blast
  moreover from i have "NodeListQuery_execute (queryAll root (Str ''ul''))
        (createTestProjector (Some (\<lambda>w. otherTree)), emptyWorld) =
      Inr (filter (\<lambda>n. makeSelectorFunction (Str ''ul'') n = Inr True) (descendants otherTree))"
    by blast
  ultimately show ?thesis
    unfolding d using m by blast
qed


end
